theory Spec2Isabelle
  imports Main
begin

section \<open>Python strings\<close>

text \<open>
  A Python \<open>str\<close> is modelled as a \<open>string\<close>: one \<open>char\<close> per code point, which covers
  every text whose code points are below 256. Each helper below is the \<open>str\<close> method of
  the same name, restricted to the way \<open>version_checker.py\<close> calls it.
\<close>

definition is_space :: "char \<Rightarrow> bool" where
  \<comment> \<open>\<open>str.isspace\<close> on the code points below 256: TAB, LF, VT, FF, CR, FS, GS, RS, US,
      SPACE, NEL and NBSP.\<close>
  "is_space c = (of_char c \<in> {9, 10, 11, 12, 13, 28, 29, 30, 31, 32, 133, 160 :: nat})"

definition strip :: "string \<Rightarrow> string" where
  \<comment> \<open>\<open>s.strip()\<close>\<close>
  "strip s = rev (dropWhile is_space (rev (dropWhile is_space s)))"

definition rstrip_chr :: "char \<Rightarrow> string \<Rightarrow> string" where
  \<comment> \<open>\<open>s.rstrip(c)\<close> for a one-character argument: every trailing \<open>c\<close> goes.\<close>
  "rstrip_chr c s = rev (dropWhile (\<lambda>x. x = c) (rev s))"

definition lstrip_chr :: "char \<Rightarrow> string \<Rightarrow> string" where
  \<comment> \<open>\<open>s.lstrip(c)\<close> for a one-character argument: every leading \<open>c\<close> goes.\<close>
  "lstrip_chr c s = dropWhile (\<lambda>x. x = c) s"

definition startswith :: "string \<Rightarrow> string \<Rightarrow> bool" where
  \<comment> \<open>\<open>s.startswith(p)\<close>\<close>
  "startswith s p = (take (length p) s = p)"

primrec contains :: "string \<Rightarrow> string \<Rightarrow> bool" where
  \<comment> \<open>\<open>p in s\<close>: \<open>p\<close> occurs in \<open>s\<close> as a substring.\<close>
  "contains [] p = (p = [])"
| "contains (c # cs) p = (startswith (c # cs) p \<or> contains cs p)"

primrec split_on :: "char \<Rightarrow> string \<Rightarrow> string list" where
  \<comment> \<open>\<open>s.split(sep)\<close> for a one-character separator: never the empty list.\<close>
  "split_on sep [] = [[]]"
| "split_on sep (c # cs) =
     (if c = sep then [] # split_on sep cs
      else (case split_on sep cs of
              [] \<Rightarrow> [[c]]
            | w # ws \<Rightarrow> (c # w) # ws))"

definition lower_chr :: "char \<Rightarrow> char" where
  \<comment> \<open>\<open>str.lower\<close> on one code point below 256: A-Z, and the Latin-1 capitals
      0xC0-0xDE but the multiplication sign 0xD7, move up by 32.\<close>
  "lower_chr c =
     (let n = (of_char c :: nat) in
      if (65 \<le> n \<and> n \<le> 90) \<or> (192 \<le> n \<and> n \<le> 222 \<and> n \<noteq> 215)
      then char_of (n + 32) else c)"

definition lower :: "string \<Rightarrow> string" where
  "lower s = map lower_chr s"

primrec join :: "string \<Rightarrow> string list \<Rightarrow> string" where
  \<comment> \<open>\<open>sep.join(xs)\<close>\<close>
  "join sep [] = []"
| "join sep (x # xs) = (if xs = [] then x else x @ sep @ join sep xs)"

section \<open>The versions table\<close>

record Plugin =
  name :: string
  github_url :: string
  owner :: string
  repo :: string
  versions :: "string list"
  is_commit_hash :: bool

subsection \<open>The three regular expressions of \<open>parse_readme\<close>\<close>

text \<open>
  \<open>re.search(r'\[([^\]]+)\]\(([^\)]+)\)', s)\<close>. Anchored at one position the pattern has at
  most one match: the greedy run \<open>[^\]]+\<close> must end right before a \<open>]\<close>, so it is the
  longest run of characters other than \<open>]\<close>, and likewise for \<open>[^\)]+\<close> before \<open>)\<close>.
  \<open>match_link_at\<close> is that anchored match, \<open>search_link\<close> tries the positions from the
  left, as \<open>re.search\<close> does. The result is (group 1, group 2).
\<close>

definition match_link_at :: "string \<Rightarrow> (string \<times> string) option" where
  "match_link_at s =
     (case s of
        [] \<Rightarrow> None
      | c # r \<Rightarrow>
          if c \<noteq> CHR ''['' then None
          else
            let g1 = takeWhile (\<lambda>x. x \<noteq> CHR '']'') r;
                r1 = dropWhile (\<lambda>x. x \<noteq> CHR '']'') r
            in if g1 = [] then None
               else (case r1 of
                       [] \<Rightarrow> None
                     | _ # [] \<Rightarrow> None
                     | _ # d # r2 \<Rightarrow>
                         if d \<noteq> CHR ''('' then None
                         else
                           let g2 = takeWhile (\<lambda>x. x \<noteq> CHR '')'') r2;
                               r3 = dropWhile (\<lambda>x. x \<noteq> CHR '')'') r2
                           in if g2 = [] \<or> r3 = [] then None else Some (g1, g2)))"

primrec search_link :: "string \<Rightarrow> (string \<times> string) option" where
  "search_link [] = None"
| "search_link (c # cs) =
     (case match_link_at (c # cs) of
        Some m \<Rightarrow> Some m
      | None \<Rightarrow> search_link cs)"

text \<open>
  \<open>re.search(r'github\.com/([^/]+)/([^/]+)', s)\<close>: the literal \<open>github.com/\<close>, the longest
  run of characters other than \<open>/\<close> (it must end before a \<open>/\<close>), that \<open>/\<close>, and again the
  longest non-empty run of characters other than \<open>/\<close>.
\<close>

definition match_github_at :: "string \<Rightarrow> (string \<times> string) option" where
  "match_github_at s =
     (if startswith s ''github.com/'' then
        let r = drop 11 s;
            g1 = takeWhile (\<lambda>x. x \<noteq> CHR ''/'') r;
            r1 = dropWhile (\<lambda>x. x \<noteq> CHR ''/'') r
        in if g1 = [] then None
           else (case r1 of
                   [] \<Rightarrow> None
                 | _ # r2 \<Rightarrow>
                     let g2 = takeWhile (\<lambda>x. x \<noteq> CHR ''/'') r2
                     in if g2 = [] then None else Some (g1, g2))
      else None)"

primrec search_github :: "string \<Rightarrow> (string \<times> string) option" where
  "search_github [] = None"
| "search_github (c # cs) =
     (case match_github_at (c # cs) of
        Some m \<Rightarrow> Some m
      | None \<Rightarrow> search_github cs)"

text \<open>
  \<open>re.match(r'^[0-9a-f]{7,}$', s)\<close>: seven or more lowercase hexadecimal digits up to the end
  of the string; Python's \<open>$\<close> also matches right before a final newline.
\<close>

definition is_hex_digit :: "char \<Rightarrow> bool" where
  "is_hex_digit c = (c \<in> set ''0123456789abcdef'')"

definition match_commit_hash :: "string \<Rightarrow> bool" where
  "match_commit_hash s =
     (let h = takeWhile is_hex_digit s; r = dropWhile is_hex_digit s
      in 7 \<le> length h \<and> (r = [] \<or> r = [CHR 0x0A]))"

subsection \<open>\<open>parse_readme\<close>\<close>

definition row_cells :: "string \<Rightarrow> string list" where
  \<comment> \<open>\<open>[cell.strip() for cell in line.split('|')[1:-1]]\<close>\<close>
  "row_cells line = map strip (butlast (tl (split_on (CHR ''|'') line)))"

definition parse_row :: "string \<Rightarrow> Plugin option" where
  \<comment> \<open>The body of \<open>if in_table and line.startswith('|')\<close>; \<open>None\<close> is a \<open>continue\<close> that
      appends nothing.\<close>
  "parse_row line =
     (let cells = row_cells line in
      if length cells < 2 then None
      else
        let plugin_cell = hd cells; version_cells = tl cells in
        if contains plugin_cell ''**NO SRC**'' then None
        else
          (case search_link plugin_cell of
             None \<Rightarrow> None
           | Some (plugin_name, url) \<Rightarrow>
               let url' = rstrip_chr (CHR ''/'') url in
               (case search_github url' of
                  None \<Rightarrow> None
                | Some (owner', repo') \<Rightarrow>
                    let versions' = map strip version_cells;
                        is_commit_hash' =
                          (hd versions' \<noteq> [] \<and> match_commit_hash (hd versions'))
                    in Some \<lparr>name = plugin_name, github_url = url', owner = owner',
                             repo = repo', versions = versions',
                             is_commit_hash = is_commit_hash'\<rparr>)))"

fun parse_lines :: "bool \<Rightarrow> string list \<Rightarrow> Plugin list \<Rightarrow> Plugin list" where
  \<comment> \<open>The \<open>for line in content.split('\n')\<close> loop, with its state \<open>in_table\<close> and \<open>plugins\<close>.\<close>
  "parse_lines in_table [] plugins = plugins"
| "parse_lines in_table (raw # rest) plugins =
     (let line = strip raw in
      if startswith line ''| Plugin'' \<or> startswith line ''| ---''
      then parse_lines True rest plugins
      else if in_table \<and> \<not> startswith line ''|'' then plugins
      else if in_table \<and> startswith line ''|'' then
        (case parse_row line of
           None \<Rightarrow> parse_lines in_table rest plugins
         | Some p \<Rightarrow> parse_lines in_table rest (plugins @ [p]))
      else parse_lines in_table rest plugins)"

definition parse_readme :: "string \<Rightarrow> Plugin list" where
  \<comment> \<open>\<open>content\<close> is what \<open>f.read()\<close> returned.\<close>
  "parse_readme content = parse_lines False (split_on (CHR 0x0A) content) []"

subsection \<open>What the specification calls the first non-empty version and the path segments\<close>

definition first_non_empty :: "string list \<Rightarrow> string option" where
  \<comment> \<open>The specification's words, not the code's: the first non-empty recorded version.\<close>
  "first_non_empty vs = find (\<lambda>v. v \<noteq> []) vs"





section \<open>The outdated comparator\<close>

text \<open>
  \<open>packaging.version\<close> and the iteration order of a Python \<open>set\<close> are not code of this
  program; they are parameters. \<open>version_parse s = None\<close> stands for
  \<open>version.parse(s)\<close> raising \<open>InvalidVersion\<close>, \<open>version_lt\<close> is \<open><\<close> on parsed versions, and
  \<open>set_iter xs\<close> is the order in which \<open>set(xs)\<close> is iterated.
\<close>

record 'v library =
  version_parse :: "string \<Rightarrow> 'v option"
  version_lt :: "'v \<Rightarrow> 'v \<Rightarrow> bool"
  set_iter :: "string list \<Rightarrow> string list"

definition is_version_outdated :: "'v library \<Rightarrow> string \<Rightarrow> string \<Rightarrow> bool \<Rightarrow> bool" where
  "is_version_outdated lib current latest is_commit_hash' =
     (if is_commit_hash' then lower current \<noteq> lower latest
      else
        (case version_parse lib current of
           None \<Rightarrow> current \<noteq> latest
         | Some c \<Rightarrow>
             (case version_parse lib latest of
                None \<Rightarrow> current \<noteq> latest
              | Some l \<Rightarrow> version_lt lib c l)))"

fun any_outdated :: "'v library \<Rightarrow> string list \<Rightarrow> string \<Rightarrow> bool \<Rightarrow> bool" where
  \<comment> \<open>The loop \<open>for current in plugin.versions\<close> of \<open>main\<close>, with its \<open>break\<close>.\<close>
  "any_outdated lib [] latest is_commit_hash' = False"
| "any_outdated lib (current # rest) latest is_commit_hash' =
     (if current \<noteq> [] \<and> is_version_outdated lib current latest is_commit_hash' then True
      else any_outdated lib rest latest is_commit_hash')"

subsection \<open>What the specification calls a case-insensitive difference\<close>

definition is_capital :: "char \<Rightarrow> bool" where
  \<comment> \<open>The specification's words, not the code's: a capital letter, A to Z or one of the
      Latin-1 capitals.\<close>
  "is_capital c =
     (let n = (of_char c :: nat)
      in (65 \<le> n \<and> n \<le> 90) \<or> (192 \<le> n \<and> n \<le> 222 \<and> n \<noteq> 215))"

definition same_letter :: "char \<Rightarrow> char \<Rightarrow> bool" where
  \<comment> \<open>The specification's words: two characters that are equal, or a capital letter and
      its small letter, which stands 32 code points above it.\<close>
  "same_letter c d =
     (c = d \<or>
      (is_capital c \<and> (of_char d :: nat) = of_char c + 32) \<or>
      (is_capital d \<and> (of_char c :: nat) = of_char d + 32))"

definition differ_ignoring_case :: "string \<Rightarrow> string \<Rightarrow> bool" where
  \<comment> \<open>The specification's words: two strings differ case-insensitively when they differ in
      length or, at some position, hold characters that are not the same letter.\<close>
  "differ_ignoring_case s t = (\<not> list_all2 same_letter s t)"

section \<open>The hosting service\<close>

text \<open>
  The PyGithub client is the program's collaborator. A call either returns or raises
  \<open>GithubException\<close>; the answers of the issue tracker may depend on the issues this run
  has created so far. \<open>get_issues\<close> is the lazily fetched list of the open issues labelled
  \<open>version-update\<close>: the titles it yields, and the exception that ends the iteration if a
  fetch fails. \<open>get_commits\<close> and \<open>get_tags\<close> are the lists as read by \<open>commits[0]\<close>,
  \<open>tags.totalCount\<close> and \<open>tags[0]\<close>.
\<close>

datatype github_exception = GithubException (status: nat) (message: string)

record issue_call =
  call_repo :: string
  call_title :: string
  call_body :: string
  call_labels :: "string list"

record Repository =
  default_branch :: string
  get_commits :: "string \<Rightarrow> github_exception + string list"
  get_latest_release :: "github_exception + string"
  get_tags :: "github_exception + string list"
  get_issues :: "issue_call list \<Rightarrow> string list \<times> github_exception option"
  repo_create_issue :: "issue_call list \<Rightarrow> issue_call \<Rightarrow> github_exception + nat"

record Github =
  get_repo :: "string \<Rightarrow> github_exception + Repository"

datatype uncaught = IndexError

datatype 'a raises = Returns 'a | Raises github_exception


record run =
  stdout :: "string list"
  stderr :: "string list"
  issue_calls :: "issue_call list"

definition nl :: string where
  "nl = [CHR 0x0A]"

definition print_end :: "string \<Rightarrow> string \<Rightarrow> run \<Rightarrow> run" where
  \<comment> \<open>\<open>print(text, end=e)\<close>\<close>
  "print_end text e s = s\<lparr>stdout := stdout s @ [text @ e]\<rparr>"

definition print :: "string \<Rightarrow> run \<Rightarrow> run" where
  "print text s = print_end text nl s"

definition eprint :: "string \<Rightarrow> run \<Rightarrow> run" where
  \<comment> \<open>\<open>print(text, file=sys.stderr)\<close>\<close>
  "eprint text s = s\<lparr>stderr := stderr s @ [text @ nl]\<rparr>"

fun str_nat :: "nat \<Rightarrow> string" where
  \<comment> \<open>\<open>str(n)\<close> for a natural number\<close>
  "str_nat n =
     (if n < 10 then [char_of (48 + n)]
      else str_nat (n div 10) @ [char_of (48 + n mod 10)])"

declare str_nat.simps [simp del]

section \<open>The version resolver\<close>

definition latest_release_or_tag :: "Repository \<Rightarrow> string raises" where
  \<comment> \<open>The inner \<open>try\<close> of \<open>get_latest_version\<close> with its handler.\<close>
  "latest_release_or_tag r =
     (case get_latest_release r of
        Inr tag \<Rightarrow> Returns (lstrip_chr (CHR ''v'') tag)
      | Inl e \<Rightarrow>
          if status e = 404 then
            (case get_tags r of
               Inl e' \<Rightarrow> Raises e'
             | Inr [] \<Rightarrow> Raises e
             | Inr (latest_tag # _) \<Rightarrow> Returns (lstrip_chr (CHR ''v'') latest_tag))
          else Raises e)"

definition fetch_latest :: "Github \<Rightarrow> Plugin \<Rightarrow> uncaught + string raises" where
  \<comment> \<open>The outer \<open>try\<close> body of \<open>get_latest_version\<close>. \<open>commits[0]\<close> on an empty list raises
      \<open>IndexError\<close>, which no handler of the program catches.\<close>
  "fetch_latest gh plugin =
     (case get_repo gh (owner plugin @ ''/'' @ repo plugin) of
        Inl e \<Rightarrow> Inr (Raises e)
      | Inr r \<Rightarrow>
          if is_commit_hash plugin then
            (case get_commits r (default_branch r) of
               Inl e \<Rightarrow> Inr (Raises e)
             | Inr [] \<Rightarrow> Inl IndexError
             | Inr (sha # _) \<Rightarrow> Inr (Returns (take 7 sha)))
          else Inr (latest_release_or_tag r))"

definition get_latest_version ::
  "Github \<Rightarrow> Plugin \<Rightarrow> run \<Rightarrow> (uncaught + string option) \<times> run" where
  \<comment> \<open>The handler of the outer \<open>try\<close> catches \<open>GithubException\<close> only: \<open>Inl IndexError\<close> is
      the exception that leaves the function.\<close>
  "get_latest_version gh plugin s =
     (case fetch_latest gh plugin of
        Inr (Returns v) \<Rightarrow> (Inr (Some v), s)
      | Inr (Raises e) \<Rightarrow>
          (Inr None,
           eprint (''Error fetching version for '' @ name plugin @ '': '' @ message e) s)
      | Inl x \<Rightarrow> (Inl x, s))"

section \<open>The issue reconciler\<close>

definition issue_title :: "string \<Rightarrow> string \<Rightarrow> string" where
  \<comment> \<open>\<open>f"Update {plugin_name} to {new_version}"\<close>\<close>
  "issue_title plugin_name new_version = ''Update '' @ plugin_name @ '' to '' @ new_version"

primrec title_among :: "string \<Rightarrow> string list \<Rightarrow> bool" where
  \<comment> \<open>\<open>for issue in issues: if issue.title == title: return True\<close>; \<open>False\<close> when the loop
      runs off the titles it was given.\<close>
  "title_among title [] = False"
| "title_among title (t # ts) = (if t = title then True else title_among title ts)"

definition search_existing_issue ::
  "Github \<Rightarrow> string \<Rightarrow> string \<Rightarrow> string \<Rightarrow> issue_call list \<Rightarrow> bool raises" where
  \<comment> \<open>The \<open>try\<close> body of \<open>check_for_existing_issue\<close>; \<open>created\<close> are the issues this run has
      created so far.\<close>
  "search_existing_issue gh repo_name plugin_name new_version created =
     (case get_repo gh repo_name of
        Inl e \<Rightarrow> Raises e
      | Inr r \<Rightarrow>
          let title = issue_title plugin_name new_version;
              (titles, failure) = get_issues r created
          in if title_among title titles then Returns True
             else (case failure of
                     None \<Rightarrow> Returns False
                   | Some e \<Rightarrow> Raises e))"

definition check_for_existing_issue ::
  "Github \<Rightarrow> string \<Rightarrow> string \<Rightarrow> string \<Rightarrow> run \<Rightarrow> bool \<times> run" where
  "check_for_existing_issue gh repo_name plugin_name new_version s =
     (case search_existing_issue gh repo_name plugin_name new_version (issue_calls s) of
        Returns found \<Rightarrow> (found, s)
      | Raises e \<Rightarrow>
          (False, eprint (''Error checking for existing issues: '' @ message e) s))"

definition issue_body :: "'v library \<Rightarrow> Plugin \<Rightarrow> string \<Rightarrow> string" where
  "issue_body lib plugin new_version =
     (let version_type = (if is_commit_hash plugin then ''commit'' else ''version'');
          current_versions = join '', '' (set_iter lib (versions plugin))
      in ''A new '' @ version_type @ '' of **'' @ name plugin @ ''** is available.'' @ nl @
         nl @
         ''**Current '' @ version_type @ ''(s)**: '' @ current_versions @ nl @
         ''**Latest '' @ version_type @ ''**: '' @ new_version @ nl @
         nl @
         ''**Repository**: '' @ github_url plugin @ nl @
         ''**Release link**: '' @ github_url plugin @ ''/'' @
           (if is_commit_hash plugin then ''commit'' else ''releases/tag/v'') @ new_version @ nl @
         nl @
         ''This issue was automatically created by the version checker.'' @ nl)"

definition create_issue ::
  "'v library \<Rightarrow> Github \<Rightarrow> string \<Rightarrow> Plugin \<Rightarrow> string \<Rightarrow> bool \<Rightarrow> run \<Rightarrow> run" where
  \<comment> \<open>\<open>issue_calls\<close> records every call of \<open>repo.create_issue\<close>, whatever it answers.\<close>
  "create_issue lib gh repo_name plugin new_version dry_run' s =
     (let title = issue_title (name plugin) new_version;
          body = issue_body lib plugin new_version
      in if dry_run' then
           print (''  Body:'' @ nl @ body)
             (print ''  Labels: version-update, automated''
               (print (''  Title: '' @ title)
                 (print (nl @ ''[DRY RUN] Would create issue:'') s)))
         else
           (case get_repo gh repo_name of
              Inl e \<Rightarrow> eprint (''Error creating issue for '' @ name plugin @ '': '' @ message e) s
            | Inr r \<Rightarrow>
                let call = \<lparr>call_repo = repo_name, call_title = title, call_body = body,
                            call_labels = [''version-update'', ''automated'']\<rparr>;
                    s' = s\<lparr>issue_calls := issue_calls s @ [call]\<rparr>
                in (case repo_create_issue r (issue_calls s) call of
                      Inl e \<Rightarrow>
                        eprint (''Error creating issue for '' @ name plugin @ '': '' @ message e) s'
                    | Inr number \<Rightarrow>
                        print (''Created issue #'' @ str_nat number @ '': '' @ title) s')))"

section \<open>The orchestrator\<close>

record args =
  versions_file :: string
  github_token :: "string option"
  target_repo :: string
  dry_run :: bool

datatype loop_state = Running nat nat run | Aborted run

fun check_plugin :: "'v library \<Rightarrow> Github \<Rightarrow> args \<Rightarrow> Plugin \<Rightarrow> loop_state \<Rightarrow> loop_state" where
  \<comment> \<open>One round of \<open>for plugin in plugins\<close>. \<open>Running updates_found errors s\<close> is the state
      between two rounds; \<open>Aborted s\<close> is the loop left by the uncaught \<open>IndexError\<close>.\<close>
  "check_plugin lib gh a plugin (Aborted s) = Aborted s"
| "check_plugin lib gh a plugin (Running updates_found errors s) =
     (let s1 = print_end (''Checking '' @ name plugin @ ''...'') '' '' s in
      case get_latest_version gh plugin s1 of
        (Inl IndexError, s2) \<Rightarrow> Aborted s2
      | (Inr None, s2) \<Rightarrow> Running updates_found (errors + 1) (print ''ERROR'' s2)
      | (Inr (Some latest), s2) \<Rightarrow>
          if any_outdated lib (versions plugin) latest (is_commit_hash plugin) then
            let s3 = print (''UPDATE AVAILABLE: '' @ latest) s2 in
            (case check_for_existing_issue gh (target_repo a) (name plugin) latest s3 of
               (True, s4) \<Rightarrow>
                 Running updates_found errors (print ''  Issue already exists, skipping'' s4)
             | (False, s4) \<Rightarrow>
                 Running (updates_found + 1) errors
                   (create_issue lib gh (target_repo a) plugin latest (dry_run a) s4))
          else Running updates_found errors (print ''OK'' s2))"

fun main_loop :: "'v library \<Rightarrow> Github \<Rightarrow> args \<Rightarrow> Plugin list \<Rightarrow> loop_state \<Rightarrow> loop_state" where
  "main_loop lib gh a [] st = st"
| "main_loop lib gh a (plugin # rest) st = main_loop lib gh a rest (check_plugin lib gh a plugin st)"

primrec run_of :: "loop_state \<Rightarrow> run" where
  "run_of (Running updates_found errors s) = s"
| "run_of (Aborted s) = s"


datatype read_error = OSError | UnicodeDecodeError

datatype exit = Exit nat | Uncaught uncaught | Uncaught_read read_error


definition main ::
  "'v library \<Rightarrow> Github \<Rightarrow> (string \<rightharpoonup> read_error + string) \<Rightarrow> args \<Rightarrow> run \<Rightarrow>
     exit \<times> run" where
  \<comment> \<open>From \<open>args = parser.parse_args()\<close> on. \<open>gh\<close> is the client \<open>Github(args.github_token)\<close>.
      \<open>files\<close> maps each path for which \<open>os.path.exists\<close> holds to what the \<open>open\<close> and
      \<open>f.read()\<close> of \<open>parse_readme\<close> do there: \<open>Inr\<close> the decoded text, or \<open>Inl\<close> the exception
      raised (\<open>OSError\<close> for a directory or a file that cannot be opened,
      \<open>UnicodeDecodeError\<close> for bytes that are not UTF-8), which no handler catches.\<close>
  "main lib gh files a s =
     (if github_token a = None \<or> github_token a = Some [] then
        (Exit 1,
         eprint ''Error: GitHub token is required. Set GITHUB_TOKEN env var or use --github-token'' s)
      else
        (case files (versions_file a) of
           None \<Rightarrow> (Exit 1, eprint (''Error: Versions file not found: '' @ versions_file a) s)
         | Some file \<Rightarrow>
             let s1 = print (''Parsing '' @ versions_file a @ ''...'') s in
             (case file of
                Inl e \<Rightarrow> (Uncaught_read e, s1)
              | Inr content \<Rightarrow>
                  let plugins = parse_readme content;
                      s2 = print (''Found '' @ str_nat (length plugins) @ '' plugins to check'' @ nl) s1
                  in (case main_loop lib gh a plugins (Running 0 0 s2) of
                        Aborted s3 \<Rightarrow> (Uncaught IndexError, s3)
                      | Running updates_found errors s3 \<Rightarrow>
                          let s4 = print (''  Errors: '' @ str_nat errors)
                                     (print (''  Updates found: '' @ str_nat updates_found)
                                       (print (''  Plugins checked: '' @ str_nat (length plugins))
                                         (print ''Summary:''
                                           (print (nl @ replicate 50 (CHR ''='')) s3))))
                          in if errors > 0 then (Exit 1, s4) else (Exit 0, s4)))))"

section \<open>Example inputs\<close>

text \<open>
  Concrete inputs at which the theorems below are instantiated. \<open>example_library\<close> tabulates
  what \<open>packaging.version\<close> answers on six release strings (every other string counts as
  unparsable) and iterates a set in the order of first occurrence.
\<close>

definition example_library :: "nat library" where
  "example_library =
     \<lparr>version_parse = map_of [(''1.0.0'', 100), (''1.1.0'', 110), (''1.2.0'', 120),
                               (''1.3.0'', 130), (''1.9.9'', 199), (''2.0.0'', 200)],
      version_lt = (\<lambda>a b. a < b),
      set_iter = remdups\<rparr>"

definition start :: run where
  "start = \<lparr>stdout = [], stderr = [], issue_calls = []\<rparr>"

definition example_repository :: Repository where
  \<comment> \<open>A repository whose latest release is tagged \<open>v1.1.0\<close>, with a tracker that lists the
      issues created in this run and numbers a new issue after them.\<close>
  "example_repository =
     \<lparr>default_branch = ''main'',
      get_commits = (\<lambda>sha. Inr [''0123456789abcdef0123456789abcdef01234567'']),
      get_latest_release = Inr ''v1.1.0'',
      get_tags = Inr [''v1.1.0''],
      get_issues = (\<lambda>created. (map call_title created, None)),
      repo_create_issue = (\<lambda>created call. Inr (Suc (length created)))\<rparr>"

definition example_github :: Github where
  "example_github = \<lparr>get_repo = (\<lambda>full_name. Inr example_repository)\<rparr>"

definition broken_tracker :: Github where
  \<comment> \<open>As \<open>example_github\<close>, but listing the open issues fails.\<close>
  "broken_tracker =
     \<lparr>get_repo = (\<lambda>full_name.
        Inr (example_repository
               \<lparr>get_issues := (\<lambda>created. ([], Some (GithubException 502 ''Bad Gateway'')))\<rparr>))\<rparr>"

definition example_plugin :: Plugin where
  "example_plugin =
     \<lparr>name = ''PluginX'', github_url = ''https://github.com/a/b'', owner = ''a'', repo = ''b'',
      versions = [''1.0.0''], is_commit_hash = False\<rparr>"

definition example_table :: string where
  "example_table =
     ''| Plugin | Version |'' @ nl @
     ''| --- | --- |'' @ nl @
     ''| [PluginX](https://github.com/a/b) | 1.0.0 |''"

definition example_args :: args where
  "example_args =
     \<lparr>versions_file = ''VERSIONS.md'', github_token = Some ''token'', target_repo = ''o/r'',
      dry_run = False\<rparr>"

definition example_files :: "string \<rightharpoonup> read_error + string" where
  \<comment> \<open>\<open>VERSIONS.md\<close> holds \<open>example_table\<close>; \<open>docs\<close> is a directory.\<close>
  "example_files = [''VERSIONS.md'' \<mapsto> Inr example_table, ''docs'' \<mapsto> Inl OSError]"

definition blank_first_table :: string where
  \<comment> \<open>One row whose first version cell is blank and whose second holds a commit hash.\<close>
  "blank_first_table =
     ''| Plugin | Old | New |'' @ nl @
     ''| --- | --- | --- |'' @ nl @
     ''| [PluginY](https://github.com/a/b) | | abcdef1 |''"



definition no_source_table :: string where
  \<comment> \<open>Two rows with the no-source marker, one with a well-formed link and one without, and
      the row of \<open>example_table\<close>.\<close>
  "no_source_table =
     ''| Plugin | Version |'' @ nl @
     ''| --- | --- |'' @ nl @
     ''| **NO SRC** [Closed](https://github.com/c/d) | 2.0.0 |'' @ nl @
     ''| Legacy **NO SRC** | 2.0.0 |'' @ nl @
     ''| [PluginX](https://github.com/a/b) | 1.0.0 |''"

section \<open>Properties\<close>

lemma split_on_not_Nil: "split_on sep s \<noteq> []"
  by (induction s) (auto split: list.splits)

subsection \<open>The comparator\<close>

lemma of_char_lower_chr:
  "(of_char (lower_chr c) :: nat) = (if is_capital c then of_char c + 32 else of_char c)"
proof -
  have "(of_char c :: nat) < 256"
    by (rule nat_of_char_less_256)
  then show ?thesis
    by (auto simp: lower_chr_def is_capital_def Let_def)
qed

lemma lower_chr_eq_iff: "lower_chr c = lower_chr d \<longleftrightarrow> same_letter c d"
proof -
  have "lower_chr c = lower_chr d \<longleftrightarrow> (of_char (lower_chr c) :: nat) = of_char (lower_chr d)"
    by simp
  also have "\<dots> \<longleftrightarrow> same_letter c d"
    unfolding of_char_lower_chr same_letter_def
    by (auto simp: is_capital_def Let_def)
  finally show ?thesis .
qed

lemma lower_eq_iff: "lower s = lower t \<longleftrightarrow> list_all2 same_letter s t"
proof -
  have "lower s = lower t \<longleftrightarrow> list_all2 (=) (map lower_chr s) (map lower_chr t)"
    by (simp add: lower_def list.rel_eq)
  also have "\<dots> \<longleftrightarrow> list_all2 (\<lambda>c d. lower_chr c = lower_chr d) s t"
    by (simp add: list_all2_map1 list_all2_map2)
  finally show ?thesis by (simp add: lower_chr_eq_iff)
qed

text \<open>
  Claim C2. In commit mode \<open>is_version_outdated\<close> is true exactly when the two strings differ
  case-insensitively: they differ in length, or at some position they hold characters
  that are neither equal nor a capital letter and its small letter. In release mode,
  when \<open>version.parse\<close> accepts both strings the result is the strict order of the two parsed
  versions, and when it rejects either of them the result is the plain inequality of the
  two strings; the function has a result in every case, so no exception leaves it.
\<close>

theorem is_version_outdated_modes:
  "is_version_outdated lib current latest True = differ_ignoring_case current latest \<and>
   (version_parse lib current = Some c \<and> version_parse lib latest = Some l \<longrightarrow>
      is_version_outdated lib current latest False = version_lt lib c l) \<and>
   (version_parse lib current = None \<or> version_parse lib latest = None \<longrightarrow>
      is_version_outdated lib current latest False = (current \<noteq> latest))"
proof (intro conjI impI)
  show "is_version_outdated lib current latest True = differ_ignoring_case current latest"
    by (simp add: is_version_outdated_def differ_ignoring_case_def lower_eq_iff)
next
  assume "version_parse lib current = Some c \<and> version_parse lib latest = Some l"
  then show "is_version_outdated lib current latest False = version_lt lib c l"
    by (simp add: is_version_outdated_def)
next
  assume "version_parse lib current = None \<or> version_parse lib latest = None"
  then show "is_version_outdated lib current latest False = (current \<noteq> latest)"
    by (auto simp: is_version_outdated_def split: option.splits)
qed

theorem is_version_outdated_modes_witness:
  "is_version_outdated example_library ''ABCDEF1'' ''abcdef1'' True = False \<and>
   is_version_outdated example_library ''abcdef1'' ''abcdef2'' True = True \<and>
   is_version_outdated example_library ''abcdef1'' ''abcdef12'' True = True \<and>
   is_version_outdated example_library ''1.2.0'' ''1.3.0'' False = True \<and>
   is_version_outdated example_library ''1.3.0'' ''1.3.0'' False = False \<and>
   is_version_outdated example_library ''2.0.0'' ''1.9.9'' False = False \<and>
   is_version_outdated example_library ''banana'' ''1.0.0'' False = True \<and>
   is_version_outdated example_library ''banana'' ''banana'' False = False"
proof -
  have d1: "differ_ignoring_case ''ABCDEF1'' ''abcdef1'' = False"
    and d2: "differ_ignoring_case ''abcdef1'' ''abcdef2'' = True"
    and d3: "differ_ignoring_case ''abcdef1'' ''abcdef12'' = True"
    by code_simp+
  have p: "version_parse example_library ''1.2.0'' = Some 120"
    "version_parse example_library ''1.3.0'' = Some 130"
    "version_parse example_library ''2.0.0'' = Some 200"
    "version_parse example_library ''1.9.9'' = Some 199"
    "version_parse example_library ''banana'' = None"
    and lt: "version_lt example_library = (\<lambda>a b. a < b)"
    by (simp_all add: example_library_def)
  have 1: "is_version_outdated example_library ''ABCDEF1'' ''abcdef1'' True = False"
    using is_version_outdated_modes [of example_library "''ABCDEF1''" "''abcdef1''"] d1 by simp
  have 2: "is_version_outdated example_library ''abcdef1'' ''abcdef2'' True = True"
    using is_version_outdated_modes [of example_library "''abcdef1''" "''abcdef2''"] d2 by simp
  have 3: "is_version_outdated example_library ''abcdef1'' ''abcdef12'' True = True"
    using is_version_outdated_modes [of example_library "''abcdef1''" "''abcdef12''"] d3 by simp
  have 4: "is_version_outdated example_library ''1.2.0'' ''1.3.0'' False = True"
    using is_version_outdated_modes [of example_library "''1.2.0''" "''1.3.0''" 120 130] p lt
    by simp
  have 5: "is_version_outdated example_library ''1.3.0'' ''1.3.0'' False = False"
    using is_version_outdated_modes [of example_library "''1.3.0''" "''1.3.0''" 130 130] p lt
    by simp
  have 6: "is_version_outdated example_library ''2.0.0'' ''1.9.9'' False = False"
    using is_version_outdated_modes [of example_library "''2.0.0''" "''1.9.9''" 200 199] p lt
    by simp
  have 7: "is_version_outdated example_library ''banana'' ''1.0.0'' False = True"
    using is_version_outdated_modes [of example_library "''banana''" "''1.0.0''"] p by simp
  have 8: "is_version_outdated example_library ''banana'' ''banana'' False = False"
    using is_version_outdated_modes [of example_library "''banana''" "''banana''"] p by simp
  show ?thesis
    using 1 2 3 4 5 6 7 8 by blast
qed

text \<open>
  Claim C5. The loop over \<open>plugin.versions\<close> reports the plugin outdated exactly when some
  non-empty entry is outdated against the resolved latest version; dropping the empty
  entries changes nothing; and once an entry is outdated the answer is fixed, whatever
  entries follow it.
\<close>

theorem any_outdated_some_non_empty:
  "any_outdated lib vs latest ch =
     (\<exists>v \<in> set vs. v \<noteq> [] \<and> is_version_outdated lib v latest ch) \<and>
   any_outdated lib (filter (\<lambda>v. v \<noteq> []) vs) latest ch = any_outdated lib vs latest ch \<and>
   (current \<noteq> [] \<and> is_version_outdated lib current latest ch \<longrightarrow>
      any_outdated lib (skipped @ current # rest) latest ch)"
proof (intro conjI impI)
  show "any_outdated lib vs latest ch =
     (\<exists>v \<in> set vs. v \<noteq> [] \<and> is_version_outdated lib v latest ch)"
    by (induction vs) auto
  show "any_outdated lib (filter (\<lambda>v. v \<noteq> []) vs) latest ch = any_outdated lib vs latest ch"
    by (induction vs) auto
  assume "current \<noteq> [] \<and> is_version_outdated lib current latest ch"
  then show "any_outdated lib (skipped @ current # rest) latest ch"
    by (induction skipped) auto
qed

theorem any_outdated_some_non_empty_witness:
  "any_outdated example_library ['''', ''1.2.0'', ''2.0.0''] ''1.3.0'' False = True \<and>
   any_outdated example_library ['''', ''1.3.0''] ''1.3.0'' False = False"
  using any_outdated_some_non_empty [of example_library "['''', ''1.2.0'', ''2.0.0'']" "''1.3.0''"
      False "''1.2.0''" "['''']" "[''2.0.0'']"]
  by (simp add: example_library_def is_version_outdated_def)

subsection \<open>The orchestrator, one round at a time\<close>

lemma issue_calls_print [simp]: "issue_calls (print t s) = issue_calls s"
  by (simp add: print_def print_end_def)
lemma issue_calls_print_end [simp]: "issue_calls (print_end t e s) = issue_calls s"
  by (simp add: print_end_def)
lemma issue_calls_eprint [simp]: "issue_calls (eprint t s) = issue_calls s"
  by (simp add: eprint_def)

lemma create_issue_dry_run:
  "create_issue lib gh repo_name plugin new_version True s =
     s\<lparr>stdout := stdout s @
        [nl @ ''[DRY RUN] Would create issue:'' @ nl,
         ''  Title: '' @ issue_title (name plugin) new_version @ nl,
         ''  Labels: version-update, automated'' @ nl,
         ''  Body:'' @ nl @ issue_body lib plugin new_version @ nl]\<rparr>"
  by (simp add: create_issue_def print_def print_end_def Let_def)

lemma get_latest_calls: "get_latest_version gh p s = (r, s') \<Longrightarrow> issue_calls s' = issue_calls s"
  by (auto simp add: get_latest_version_def split: sum.splits raises.splits)

lemma check_calls: "check_for_existing_issue gh r n v s = (b, s') \<Longrightarrow> issue_calls s' = issue_calls s"
  by (auto simp add: check_for_existing_issue_def split: raises.splits)

lemma check_plugin_dry:
  assumes d: "dry_run a"
  shows "issue_calls (run_of (check_plugin lib gh a p st)) = issue_calls (run_of st)"
proof (cases st)
  case (Aborted s)
  then show ?thesis by simp
next
  case (Running u n s)
  let ?s1 = "print_end (''Checking '' @ name p @ ''...'') '' '' s"
  obtain r s2 where g: "get_latest_version gh p ?s1 = (r, s2)"
    by (cases "get_latest_version gh p ?s1")
  have c2: "issue_calls s2 = issue_calls s"
    using get_latest_calls[OF g] by simp
  show ?thesis
  proof (cases r)
    case (Inl x)
    have "check_plugin lib gh a p (Running u n s) = Aborted s2"
      by (cases x) (simp only: check_plugin.simps Let_def g Inl prod.case sum.case uncaught.case)
    then show ?thesis using c2 Running by simp
  next
    case (Inr opt)
    show ?thesis
    proof (cases opt)
      case None
      have "check_plugin lib gh a p (Running u n s) = Running u (n + 1) (print ''ERROR'' s2)"
        by (simp only: check_plugin.simps Let_def g Inr None prod.case sum.case option.case)
      then show ?thesis using c2 Running by simp
    next
      case (Some latest)
      let ?s3 = "print (''UPDATE AVAILABLE: '' @ latest) s2"
      obtain b s4 where c: "check_for_existing_issue gh (target_repo a) (name p) latest ?s3 = (b, s4)"
        by (cases "check_for_existing_issue gh (target_repo a) (name p) latest ?s3")
      have c4: "issue_calls s4 = issue_calls s"
        using check_calls[OF c] c2 by simp
      have "check_plugin lib gh a p (Running u n s) =
          (if any_outdated lib (versions p) latest (is_commit_hash p) then
             (if b then Running u n (print ''  Issue already exists, skipping'' s4)
              else Running (u + 1) n (create_issue lib gh (target_repo a) p latest (dry_run a) s4))
           else Running u n (print ''OK'' s2))"
        by (cases b) (simp_all only: check_plugin.simps Let_def g Inr Some c prod.case sum.case
            option.case bool.case if_True if_False)
      then show ?thesis using c2 c4 Running d by (simp add: create_issue_dry_run)
    qed
  qed
qed

lemma main_loop_dry:
  "dry_run a \<Longrightarrow> issue_calls (run_of (main_loop lib gh a ps st)) = issue_calls (run_of st)"
  by (induction ps arbitrary: st) (simp_all add: check_plugin_dry)

lemma main_dry_run:
  assumes d: "dry_run a"
  shows "issue_calls (snd (main lib gh files a s)) = issue_calls s"
proof (cases "github_token a = None \<or> github_token a = Some []")
  case True
  have "main lib gh files a s = (Exit 1,
         eprint ''Error: GitHub token is required. Set GITHUB_TOKEN env var or use --github-token'' s)"
    using True by (simp only: main_def if_True)
  then show ?thesis by simp
next
  case tok: False
  show ?thesis
  proof (cases "files (versions_file a)")
    case None
    have "main lib gh files a s =
        (Exit 1, eprint (''Error: Versions file not found: '' @ versions_file a) s)"
      using tok by (simp only: main_def if_False None option.case)
    then show ?thesis by simp
  next
    case (Some entry)
    show ?thesis
    proof (cases entry)
      case (Inl e)
      have "main lib gh files a s = (Uncaught_read e, print (''Parsing '' @ versions_file a @ ''...'') s)"
        using tok by (simp only: main_def if_False Some Inl option.case sum.case Let_def)
      then show ?thesis by simp
    next
      case (Inr content)
      let ?s2 = "print (''Found '' @ str_nat (length (parse_readme content)) @ '' plugins to check'' @ nl)
         (print (''Parsing '' @ versions_file a @ ''...'') s)"
      let ?st = "main_loop lib gh a (parse_readme content) (Running 0 0 ?s2)"
      have c: "issue_calls (run_of ?st) = issue_calls s"
        by (simp add: main_loop_dry[OF d])
      show ?thesis
      proof (cases ?st)
        case (Aborted s3)
        have "main lib gh files a s = (Uncaught IndexError, s3)"
          using tok by (simp only: main_def if_False Some Inr option.case sum.case Let_def Aborted
              loop_state.case)
        then show ?thesis using c Aborted by simp
      next
        case (Running u n s3)
        have "snd (main lib gh files a s) =
              print (''  Errors: '' @ str_nat n)
                (print (''  Updates found: '' @ str_nat u)
                  (print (''  Plugins checked: '' @ str_nat (length (parse_readme content)))
                    (print ''Summary:'' (print (nl @ replicate 50 (CHR ''='')) s3))))"
          using tok by (simp only: main_def if_False Some Inr option.case sum.case Let_def Running
              loop_state.case if_distrib[of snd] snd_conv if_cancel)
        then show ?thesis using c Running by simp
      qed
    qed
  qed
qed



lemma get_latest_version_Returns:
  "fetch_latest gh p = Inr (Returns v) \<Longrightarrow> get_latest_version gh p s = (Inr (Some v), s)"
  by (simp add: get_latest_version_def)



lemma check_plugin_Returns:
  assumes "fetch_latest gh p = Inr (Returns latest)"
  shows "check_plugin lib gh a p (Running u n s) =
     (let s2 = print_end (''Checking '' @ name p @ ''...'') '' '' s in
      if any_outdated lib (versions p) latest (is_commit_hash p) then
        let s3 = print (''UPDATE AVAILABLE: '' @ latest) s2 in
        (case check_for_existing_issue gh (target_repo a) (name p) latest s3 of
           (True, s4) \<Rightarrow> Running u n (print ''  Issue already exists, skipping'' s4)
         | (False, s4) \<Rightarrow>
             Running (u + 1) n (create_issue lib gh (target_repo a) p latest (dry_run a) s4))
      else Running u n (print ''OK'' s2))"
  by (simp only: check_plugin.simps Let_def get_latest_version_Returns[OF assms] prod.case sum.case
        option.case)









subsection \<open>The issue reconciler\<close>

text \<open>
  Claim C7. In dry-run mode \<open>create_issue\<close> leaves the record of \<open>repo.create_issue\<close> calls and
  the error stream as they were and prints four texts: the banner, the title, the labels
  and the body. A whole run of \<open>main\<close> in dry-run mode calls \<open>repo.create_issue\<close> not once,
  whatever the plugins and the hosting service are.
\<close>

theorem dry_run_never_creates:
  "create_issue lib gh repo_name plugin new_version True s =
     s\<lparr>stdout := stdout s @
        [nl @ ''[DRY RUN] Would create issue:'' @ nl,
         ''  Title: '' @ issue_title (name plugin) new_version @ nl,
         ''  Labels: version-update, automated'' @ nl,
         ''  Body:'' @ nl @ issue_body lib plugin new_version @ nl]\<rparr> \<and>
   issue_calls (snd (main lib gh files (a\<lparr>dry_run := True\<rparr>) s)) = issue_calls s"
proof
  show "create_issue lib gh repo_name plugin new_version True s =
     s\<lparr>stdout := stdout s @
        [nl @ ''[DRY RUN] Would create issue:'' @ nl,
         ''  Title: '' @ issue_title (name plugin) new_version @ nl,
         ''  Labels: version-update, automated'' @ nl,
         ''  Body:'' @ nl @ issue_body lib plugin new_version @ nl]\<rparr>"
    by (rule create_issue_dry_run)
  have "dry_run (a\<lparr>dry_run := True\<rparr>)"
    by simp
  then show "issue_calls (snd (main lib gh files (a\<lparr>dry_run := True\<rparr>) s)) = issue_calls s"
    by (rule main_dry_run)
qed

theorem dry_run_never_creates_witness:
  "issue_calls (create_issue example_library example_github ''o/r'' example_plugin ''1.1.0'' True start) = [] \<and>
   issue_calls
     (snd (main example_library example_github example_files (example_args\<lparr>dry_run := True\<rparr>) start)) = []"
  using dry_run_never_creates [of example_library example_github "''o/r''" example_plugin "''1.1.0''"
      start example_files example_args]
  by (simp add: start_def)

text \<open>
  Claim C10. When the search for an existing issue raises \<open>GithubException\<close>,
  \<open>check_for_existing_issue\<close> logs it and returns \<open>False\<close>; for an outdated plugin the round of
  \<open>main\<close> then counts an update and calls \<open>create_issue\<close>; and outside dry-run mode
  \<open>create_issue\<close> calls \<open>repo.create_issue\<close> as soon as the target repository is found.
\<close>

theorem failed_search_attempts_creation:
  "(search_existing_issue gh repo_name plugin_name new_version (issue_calls s) = Raises e \<longrightarrow>
      check_for_existing_issue gh repo_name plugin_name new_version s =
        (False, eprint (''Error checking for existing issues: '' @ message e) s)) \<and>
   (fetch_latest gh plugin = Inr (Returns latest) \<and>
    any_outdated lib (versions plugin) latest (is_commit_hash plugin) \<and>
    search_existing_issue gh (target_repo a) (name plugin) latest (issue_calls s) = Raises e \<longrightarrow>
      check_plugin lib gh a plugin (Running updates_found errors s) =
        Running (updates_found + 1) errors
          (create_issue lib gh (target_repo a) plugin latest (dry_run a)
             (eprint (''Error checking for existing issues: '' @ message e)
                (print (''UPDATE AVAILABLE: '' @ latest)
                   (print_end (''Checking '' @ name plugin @ ''...'') '' '' s))))) \<and>
   (get_repo gh repo_name = Inr r \<longrightarrow>
      issue_calls (create_issue lib gh repo_name plugin new_version False s) =
        issue_calls s @
          [\<lparr>call_repo = repo_name, call_title = issue_title (name plugin) new_version,
            call_body = issue_body lib plugin new_version,
            call_labels = [''version-update'', ''automated'']\<rparr>])"
proof (intro conjI impI)
  assume "search_existing_issue gh repo_name plugin_name new_version (issue_calls s) = Raises e"
  then show "check_for_existing_issue gh repo_name plugin_name new_version s =
        (False, eprint (''Error checking for existing issues: '' @ message e) s)"
    by (simp add: check_for_existing_issue_def)
next
  assume h: "fetch_latest gh plugin = Inr (Returns latest) \<and>
    any_outdated lib (versions plugin) latest (is_commit_hash plugin) \<and>
    search_existing_issue gh (target_repo a) (name plugin) latest (issue_calls s) = Raises e"
  let ?s3 = "print (''UPDATE AVAILABLE: '' @ latest)
               (print_end (''Checking '' @ name plugin @ ''...'') '' '' s)"
  have "search_existing_issue gh (target_repo a) (name plugin) latest (issue_calls ?s3) = Raises e"
    using h by simp
  then have c: "check_for_existing_issue gh (target_repo a) (name plugin) latest ?s3 =
      (False, eprint (''Error checking for existing issues: '' @ message e) ?s3)"
    by (simp only: check_for_existing_issue_def raises.case)
  have f: "fetch_latest gh plugin = Inr (Returns latest)"
    and o: "any_outdated lib (versions plugin) latest (is_commit_hash plugin)"
    using h by simp_all
  show "check_plugin lib gh a plugin (Running updates_found errors s) =
        Running (updates_found + 1) errors
          (create_issue lib gh (target_repo a) plugin latest (dry_run a)
             (eprint (''Error checking for existing issues: '' @ message e) ?s3))"
    by (simp only: check_plugin_Returns[OF f] Let_def o if_True c prod.case bool.case)
next
  assume "get_repo gh repo_name = Inr r"
  then show "issue_calls (create_issue lib gh repo_name plugin new_version False s) =
        issue_calls s @
          [\<lparr>call_repo = repo_name, call_title = issue_title (name plugin) new_version,
            call_body = issue_body lib plugin new_version,
            call_labels = [''version-update'', ''automated'']\<rparr>]"
    by (simp add: create_issue_def Let_def split: sum.splits)
qed

theorem failed_search_attempts_creation_witness:
  "check_for_existing_issue broken_tracker ''o/r'' ''PluginX'' ''1.1.0'' start =
     (False, eprint ''Error checking for existing issues: Bad Gateway'' start) \<and>
   map call_title
     (issue_calls (run_of
        (check_plugin example_library broken_tracker example_args example_plugin (Running 0 0 start)))) =
     [''Update PluginX to 1.1.0'']"
proof -
  let ?e = "GithubException 502 ''Bad Gateway''"
  let ?r = "example_repository\<lparr>get_issues := (\<lambda>created. ([], Some ?e))\<rparr>"
  let ?s4 = "eprint (''Error checking for existing issues: '' @ message ?e)
                (print (''UPDATE AVAILABLE: '' @ ''1.1.0'')
                   (print_end (''Checking '' @ name example_plugin @ ''...'') '' '' start))"
  have r: "get_repo broken_tracker ''o/r'' = Inr ?r"
    by (simp add: broken_tracker_def)
  have h1: "search_existing_issue broken_tracker ''o/r'' ''PluginX'' ''1.1.0'' (issue_calls start) =
      Raises ?e"
    by (simp add: search_existing_issue_def broken_tracker_def)
  have h2: "fetch_latest broken_tracker example_plugin = Inr (Returns ''1.1.0'')"
    by (simp add: fetch_latest_def broken_tracker_def example_plugin_def example_repository_def
        latest_release_or_tag_def lstrip_chr_def)
  have h3: "any_outdated example_library (versions example_plugin) ''1.1.0''
      (is_commit_hash example_plugin)"
    by (simp add: example_plugin_def example_library_def is_version_outdated_def)
  have n: "name example_plugin = ''PluginX''" and t: "target_repo example_args = ''o/r''"
    and d: "dry_run example_args = False"
    by (simp_all add: example_plugin_def example_args_def)
  note th = failed_search_attempts_creation [of broken_tracker "''o/r''" "''PluginX''" "''1.1.0''" start
      ?e example_plugin "''1.1.0''" example_library example_args 0 0 ?r]
  have a: "check_for_existing_issue broken_tracker ''o/r'' ''PluginX'' ''1.1.0'' start =
     (False, eprint ''Error checking for existing issues: Bad Gateway'' start)"
    using th h1 by simp
  have b: "check_plugin example_library broken_tracker example_args example_plugin (Running 0 0 start) =
        Running (0 + 1) 0
          (create_issue example_library broken_tracker ''o/r'' example_plugin ''1.1.0'' False ?s4)"
    using th h1 h2 h3 unfolding n t d by blast
  have c: "issue_calls (create_issue example_library broken_tracker ''o/r'' example_plugin ''1.1.0'' False ?s4) =
        issue_calls ?s4 @
          [\<lparr>call_repo = ''o/r'', call_title = issue_title (name example_plugin) ''1.1.0'',
            call_body = issue_body example_library example_plugin ''1.1.0'',
            call_labels = [''version-update'', ''automated'']\<rparr>]"
    using failed_search_attempts_creation [of broken_tracker "''o/r''" "''PluginX''" "''1.1.0''" ?s4
      ?e example_plugin "''1.1.0''" example_library example_args 0 0 ?r] r by blast
  have e: "run_of (check_plugin example_library broken_tracker example_args example_plugin
        (Running 0 0 start)) =
      create_issue example_library broken_tracker ''o/r'' example_plugin ''1.1.0'' False ?s4"
    unfolding b by (simp only: run_of.simps)
  show ?thesis
    unfolding e c using a by (simp add: start_def n issue_title_def)
qed

subsection \<open>The version resolver\<close>

text \<open>
  Claim C4 fails on the code: \<open>tag.lstrip('v')\<close> removes every leading \<open>v\<close>, not one. For a
  latest release tagged \<open>vv1.1.0\<close> the resolver answers \<open>1.1.0\<close>, where one stripped prefix
  would leave \<open>v1.1.0\<close>; the same holds on the tag fallback.
\<close>

theorem lstrip_removes_every_leading_v:
  "latest_release_or_tag (example_repository\<lparr>get_latest_release := Inr ''vv1.1.0''\<rparr>) =
     Returns ''1.1.0'' \<and>
   latest_release_or_tag
     (example_repository\<lparr>get_latest_release := Inl (GithubException 404 ''Not Found''),
                          get_tags := Inr [''vv1.1.0'']\<rparr>) = Returns ''1.1.0''"
  by (simp add: latest_release_or_tag_def lstrip_chr_def)

subsection \<open>The exit status\<close>




subsection \<open>The hosting pattern\<close>

lemma length_github: "length ''github.com/'' = 11"
  by simp

lemma startswith_github: "startswith s ''github.com/'' = (take 11 s = ''github.com/'')"
  by (simp only: startswith_def length_github)

lemma match_github_at_Some:
  assumes m: "match_github_at s = Some (a, b)"
  shows "\<exists>rest. s = ''github.com/'' @ a @ ''/'' @ b @ rest \<and> a \<noteq> [] \<and> b \<noteq> [] \<and>
           CHR ''/'' \<notin> set a \<and> CHR ''/'' \<notin> set b \<and> (rest = [] \<or> hd rest = CHR ''/'')"
proof -
  let ?P = "\<lambda>x. x \<noteq> CHR ''/''"
  define r where "r = drop 11 s"
  have sw: "startswith s ''github.com/''"
    using m by (simp add: match_github_at_def split: if_splits)
  have "take 11 s = ''github.com/''"
    using sw by (simp only: startswith_github)
  then have s: "s = ''github.com/'' @ r"
    unfolding r_def by (metis append_take_drop_id)
  have body: "(let g1 = takeWhile ?P r; r1 = dropWhile ?P r
        in if g1 = [] then None
           else (case r1 of
                   [] \<Rightarrow> None
                 | _ # r2 \<Rightarrow>
                     let g2 = takeWhile ?P r2
                     in if g2 = [] then None else Some (g1, g2))) = Some (a, b)"
    using m sw unfolding match_github_at_def r_def by (simp only: if_True Let_def)
  then obtain x r2 where a: "takeWhile ?P r = a" "a \<noteq> []" and d: "dropWhile ?P r = x # r2"
    and b: "takeWhile ?P r2 = b" "b \<noteq> []"
    by (auto simp: Let_def split: if_splits list.splits)
  have x: "x = CHR ''/''"
    using d hd_dropWhile[of ?P r] by simp
  have r: "r = a @ CHR ''/'' # r2"
    using takeWhile_dropWhile_id[of ?P r] a d x by simp
  define rest where "rest = dropWhile ?P r2"
  have r2: "r2 = b @ rest"
    using takeWhile_dropWhile_id[of ?P r2] b rest_def by simp
  have rest: "rest = [] \<or> hd rest = CHR ''/''"
    using hd_dropWhile[of ?P r2] rest_def by auto
  have na: "CHR ''/'' \<notin> set a"
    using a(1) set_takeWhileD[of "CHR ''/''" ?P r] by auto
  have nb: "CHR ''/'' \<notin> set b"
    using b(1) set_takeWhileD[of "CHR ''/''" ?P r2] by auto
  show ?thesis
    using s r r2 a(2) b(2) na nb rest by auto
qed

lemma search_github_Some:
  "search_github s = Some (a, b) \<Longrightarrow>
   \<exists>pre rest. s = pre @ ''github.com/'' @ a @ ''/'' @ b @ rest \<and> a \<noteq> [] \<and> b \<noteq> [] \<and>
           CHR ''/'' \<notin> set a \<and> CHR ''/'' \<notin> set b \<and> (rest = [] \<or> hd rest = CHR ''/'')"
proof (induction s)
  case Nil
  then show ?case by simp
next
  case (Cons c cs)
  show ?case
  proof (cases "match_github_at (c # cs)")
    case None
    then have "search_github cs = Some (a, b)"
      using Cons.prems by simp
    then obtain pre rest where "cs = pre @ ''github.com/'' @ a @ ''/'' @ b @ rest \<and> a \<noteq> [] \<and> b \<noteq> [] \<and>
           CHR ''/'' \<notin> set a \<and> CHR ''/'' \<notin> set b \<and> (rest = [] \<or> hd rest = CHR ''/'')"
      using Cons.IH by blast
    then have "c # cs = (c # pre) @ ''github.com/'' @ a @ ''/'' @ b @ rest \<and> a \<noteq> [] \<and> b \<noteq> [] \<and>
           CHR ''/'' \<notin> set a \<and> CHR ''/'' \<notin> set b \<and> (rest = [] \<or> hd rest = CHR ''/'')"
      by simp
    then show ?thesis by blast
  next
    case (Some m)
    then have "match_github_at (c # cs) = Some (a, b)"
      using Cons.prems by simp
    from match_github_at_Some[OF this] obtain rest where
      "c # cs = [] @ ''github.com/'' @ a @ ''/'' @ b @ rest \<and> a \<noteq> [] \<and> b \<noteq> [] \<and>
           CHR ''/'' \<notin> set a \<and> CHR ''/'' \<notin> set b \<and> (rest = [] \<or> hd rest = CHR ''/'')"
      by auto
    then show ?thesis by blast
  qed
qed




subsection \<open>The table parser\<close>




lemma startswith_set: "startswith x p \<Longrightarrow> set p \<subseteq> set x"
  by (metis startswith_def set_take_subset)



lemma match_commit_hash_Nil: "\<not> match_commit_hash []"
  by (simp add: match_commit_hash_def)

lemma parse_row_Some:
  assumes "parse_row line = Some p"
  shows "\<exists>cell cells plugin_name url.
           row_cells line = cell # cells \<and> cells \<noteq> [] \<and>
           \<not> contains cell ''**NO SRC**'' \<and>
           search_link cell = Some (plugin_name, url) \<and>
           name p = plugin_name \<and>
           github_url p = rstrip_chr (CHR ''/'') url \<and>
           search_github (github_url p) = Some (owner p, repo p) \<and>
           versions p = map strip cells \<and>
           is_commit_hash p = match_commit_hash (hd (versions p))"
proof (cases "row_cells line")
  case Nil
  then show ?thesis using assms by (simp add: parse_row_def)
next
  case (Cons cell cells)
  then show ?thesis
    using assms unfolding parse_row_def Let_def
    by (cases cells) (auto split: if_splits option.splits prod.splits simp: match_commit_hash_Nil)
qed

lemma parse_lines_set:
  "p \<in> set (parse_lines in_table ls plugins) \<Longrightarrow>
   p \<in> set plugins \<or> (\<exists>l \<in> set ls. parse_row (strip l) = Some p)"
proof (induction ls arbitrary: in_table plugins)
  case Nil
  then show ?case by simp
next
  case (Cons raw rest)
  note IH = Cons.IH
  show ?case
    using Cons.prems
    by (auto simp: Let_def split: if_splits option.splits dest!: IH)
qed

lemma parse_readme_set:
  "p \<in> set (parse_readme content) \<Longrightarrow>
   \<exists>l \<in> set (split_on (CHR 0x0A) content). parse_row (strip l) = Some p"
  using parse_lines_set[of p False "split_on (CHR 0x0A) content" "[]"]
  by (simp add: parse_readme_def)

subsection \<open>Parsed records\<close>

text \<open>
  Claim C8. Every record that \<open>parse_readme\<close> returns, and every record a single row yields,
  has at least one recorded version and a non-empty owner and repository name; a row
  yields a whole record or nothing.
\<close>

theorem parsed_record_invariant:
  "(p \<in> set (parse_readme content) \<longrightarrow> versions p \<noteq> [] \<and> owner p \<noteq> [] \<and> repo p \<noteq> []) \<and>
   (parse_row line = Some q \<longrightarrow> versions q \<noteq> [] \<and> owner q \<noteq> [] \<and> repo q \<noteq> [])"
proof -
  have row: "versions r \<noteq> [] \<and> owner r \<noteq> [] \<and> repo r \<noteq> []" if h: "parse_row l = Some r" for l r
  proof -
    obtain cells where "cells \<noteq> []" "versions r = map strip cells"
      and g: "search_github (github_url r) = Some (owner r, repo r)"
      using parse_row_Some[OF h] by blast
    then have "versions r \<noteq> []" by simp
    then show ?thesis using search_github_Some[OF g] by blast
  qed
  show ?thesis
    using row parse_readme_set[of p content] by blast
qed

theorem parsed_record_invariant_witness:
  "example_plugin \<in> set (parse_readme example_table) \<and>
   versions example_plugin \<noteq> [] \<and> owner example_plugin \<noteq> [] \<and> repo example_plugin \<noteq> []"
proof -
  have p: "parse_readme example_table = [example_plugin]"
    by code_simp
  then show ?thesis
    using parsed_record_invariant [of example_plugin example_table] by simp
qed

text \<open>
  Claim C9. A row whose first cell contains \<open>**NO SRC**\<close> yields no record, whatever else the
  cell holds; and every record of \<open>parse_readme\<close> comes from a line whose first cell does not
  contain the marker.
\<close>

theorem no_source_rows_yield_nothing:
  "(row_cells line = cell # cells \<and> contains cell ''**NO SRC**'' \<longrightarrow> parse_row line = None) \<and>
   (p \<in> set (parse_readme content) \<longrightarrow>
      (\<exists>l \<in> set (split_on (CHR 0x0A) content).
         parse_row (strip l) = Some p \<and> \<not> contains (hd (row_cells (strip l))) ''**NO SRC**''))"
proof (intro conjI impI)
  assume "row_cells line = cell # cells \<and> contains cell ''**NO SRC**''"
  then show "parse_row line = None"
    by (simp add: parse_row_def Let_def)
next
  assume "p \<in> set (parse_readme content)"
  then obtain l where l: "l \<in> set (split_on (CHR 0x0A) content)" "parse_row (strip l) = Some p"
    using parse_readme_set by blast
  obtain cell cells where "row_cells (strip l) = cell # cells" "\<not> contains cell ''**NO SRC**''"
    using parse_row_Some[OF l(2)] by blast
  then have "\<not> contains (hd (row_cells (strip l))) ''**NO SRC**''"
    by simp
  then show "\<exists>l \<in> set (split_on (CHR 0x0A) content).
         parse_row (strip l) = Some p \<and> \<not> contains (hd (row_cells (strip l))) ''**NO SRC**''"
    using l by blast
qed

theorem no_source_rows_yield_nothing_witness:
  "parse_row ''| **NO SRC** [Closed](https://github.com/c/d) | 2.0.0 |'' = None \<and>
   parse_row ''| Legacy **NO SRC** | 2.0.0 |'' = None \<and>
   parse_readme no_source_table = [example_plugin]"
proof -
  have c1: "row_cells ''| **NO SRC** [Closed](https://github.com/c/d) | 2.0.0 |'' =
      ''**NO SRC** [Closed](https://github.com/c/d)'' # [''2.0.0'']"
    by code_simp
  have m1: "contains ''**NO SRC** [Closed](https://github.com/c/d)'' ''**NO SRC**''"
    by code_simp
  have c2: "row_cells ''| Legacy **NO SRC** | 2.0.0 |'' = ''Legacy **NO SRC**'' # [''2.0.0'']"
    by code_simp
  have m2: "contains ''Legacy **NO SRC**'' ''**NO SRC**''"
    by code_simp
  have t: "parse_readme no_source_table = [example_plugin]"
    by code_simp
  show ?thesis
    using no_source_rows_yield_nothing
        [of "''| **NO SRC** [Closed](https://github.com/c/d) | 2.0.0 |''"
           "''**NO SRC** [Closed](https://github.com/c/d)''" "[''2.0.0'']"]
      no_source_rows_yield_nothing
        [of "''| Legacy **NO SRC** | 2.0.0 |''" "''Legacy **NO SRC**''" "[''2.0.0'']"]
      c1 m1 c2 m2 t
    by blast
qed

text \<open>
  Claim C1, as stated, fails: the row of \<open>blank_first_table\<close> has a blank first version cell
  and the commit hash \<open>abcdef1\<close> in the second. Its first non-empty version matches the
  pattern, and the record's flag is false.
\<close>

theorem commit_flag_counterexample:
  "parse_readme blank_first_table =
     [\<lparr>name = ''PluginY'', github_url = ''https://github.com/a/b'', owner = ''a'', repo = ''b'',
       versions = ['''', ''abcdef1''], is_commit_hash = False\<rparr>] \<and>
   first_non_empty ['''', ''abcdef1''] = Some ''abcdef1'' \<and>
   match_commit_hash ''abcdef1''"
  by code_simp

text \<open>
  Claim C1, amended. For every parsed record the flag \<open>is_commit_hash\<close> is true exactly when
  the first version cell, empty or not, matches \<open>^[0-9a-f]{7,}$\<close>. So the flag is false
  when that cell is empty, and agrees with the first non-empty version when it is not.
\<close>

theorem commit_flag_from_first_cell:
  "p \<in> set (parse_readme content) \<longrightarrow>
     versions p \<noteq> [] \<and>
     is_commit_hash p = match_commit_hash (hd (versions p)) \<and>
     (hd (versions p) = [] \<longrightarrow> \<not> is_commit_hash p) \<and>
     (hd (versions p) \<noteq> [] \<longrightarrow>
        first_non_empty (versions p) = Some (hd (versions p)))"
proof
  assume "p \<in> set (parse_readme content)"
  then obtain l where "parse_row (strip l) = Some p"
    using parse_readme_set by blast
  then obtain cells where c: "cells \<noteq> []" "versions p = map strip cells"
    and f: "is_commit_hash p = match_commit_hash (hd (versions p))"
    using parse_row_Some by blast
  have v: "versions p \<noteq> []"
    using c by simp
  then have "hd (versions p) \<noteq> [] \<longrightarrow> first_non_empty (versions p) = Some (hd (versions p))"
    by (cases "versions p") (simp_all add: first_non_empty_def)
  then show "versions p \<noteq> [] \<and>
     is_commit_hash p = match_commit_hash (hd (versions p)) \<and>
     (hd (versions p) = [] \<longrightarrow> \<not> is_commit_hash p) \<and>
     (hd (versions p) \<noteq> [] \<longrightarrow>
        first_non_empty (versions p) = Some (hd (versions p)))"
    using v f match_commit_hash_Nil by simp
qed

theorem commit_flag_from_first_cell_witness:
  "parse_readme blank_first_table =
     [\<lparr>name = ''PluginY'', github_url = ''https://github.com/a/b'', owner = ''a'', repo = ''b'',
       versions = ['''', ''abcdef1''], is_commit_hash = False\<rparr>] \<and>
   is_commit_hash
     \<lparr>name = ''PluginY'', github_url = ''https://github.com/a/b'', owner = ''a'', repo = ''b'',
       versions = ['''', ''abcdef1''], is_commit_hash = False\<rparr> = match_commit_hash ''''"
proof -
  have p: "parse_readme blank_first_table =
     [\<lparr>name = ''PluginY'', github_url = ''https://github.com/a/b'', owner = ''a'', repo = ''b'',
       versions = ['''', ''abcdef1''], is_commit_hash = False\<rparr>]"
    by code_simp
  show ?thesis
    using commit_flag_from_first_cell
        [of "\<lparr>name = ''PluginY'', github_url = ''https://github.com/a/b'', owner = ''a'',
              repo = ''b'', versions = ['''', ''abcdef1''], is_commit_hash = False\<rparr>"
            blank_first_table] p
    by simp
qed




end
